theory Spec2Isabelle
  imports Main "HOL-Library.Word"
begin

unbundle bit_operations_syntax

section \<open>The process bridge of qemu\_jni.c\<close>

text \<open>
  The bridge keeps a table of four slots, each empty (\<open>NULL\<close>) or pointing to a
  \<open>QemuHandle\<close>, and drives an emulator process through the operating system. The
  embedding threads a \<open>world\<close> through every function: the table, and the trace of the
  system calls made so far, in order. What the operating system answers to a call is
  given by an \<open>os\<close>: any function of the calls made so far and of the call at hand.
  Theorems quantify over every such function, so they hold for every behaviour of the
  system.

  Outside the model: the log macros (\<open>LOGI\<close>, \<open>LOGE\<close>, \<open>LOGD\<close>), which only write to the
  diagnostic log, and \<open>ReleaseStringUTFChars\<close>. A \<open>jstring\<close> argument is given as what
  \<open>GetStringUTFChars\<close> returns for it: \<open>None\<close> for \<open>NULL\<close>, otherwise the characters.
  \<open>nativeInit\<close> and the hooks \<open>JNI_OnLoad\<close> and \<open>JNI_OnUnload\<close> take no part in the
  statements below and are left out.
\<close>

subsection \<open>Data\<close>

type_synonym jint = "32 word"
type_synonym byte = "8 word"

text \<open>\<open>pid_t\<close>, \<open>int\<close> and \<open>jlong\<close> values are compared and stored only, never
  computed with: they are integers here.\<close>

record QemuHandle =
  pid :: int
  running :: int
  data_dir :: "byte list"
  pid_file :: "byte list"
  log_file :: "byte list"

definition MAX_HANDLES :: nat where
  "MAX_HANDLES = 4"

datatype signal = SIGTERM | SIGKILL

datatype wait_options = WNOHANG | NO_OPTIONS

datatype syscall =
    Calloc
  | Free nat
  | Fork
  | Execlp string "string list"
  | Exit int
  | Kill int signal
  | Waitpid int wait_options
  | Usleep nat
  | Fopen string string
  | Fwrite "byte list"
  | Fclose

record world =
  handles :: "QemuHandle option list"
  trace :: "syscall list"

type_synonym os = "syscall list \<Rightarrow> syscall \<Rightarrow> int"

text \<open>A call whose result the code ignores, and a call whose result it reads. For
  \<open>Calloc\<close> and \<open>Fopen\<close> the answer 0 is \<open>NULL\<close>; for \<open>Execlp\<close> the answer 0 means that
  the image was replaced, so that the call never returns, and any other answer that the
  call returned, which it does on failure only.\<close>

definition emit :: "syscall \<Rightarrow> world \<Rightarrow> world" where
  "emit c w = w\<lparr>trace := trace w @ [c]\<rparr>"

definition sys :: "os \<Rightarrow> syscall \<Rightarrow> world \<Rightarrow> int \<times> world" where
  "sys os c w = (os (trace w) c, emit c w)"

text \<open>The block \<open>calloc(1, sizeof(QemuHandle))\<close> returns: every byte zero.\<close>

definition zero_handle :: QemuHandle where
  "zero_handle = \<lparr>pid = 0, running = 0, data_dir = replicate 512 0,
     pid_file = replicate 512 0, log_file = replicate 512 0\<rparr>"

text \<open>An assignment through the pointer \<open>handles[handle_id]\<close>.\<close>

definition store_handle :: "int \<Rightarrow> QemuHandle \<Rightarrow> world \<Rightarrow> world" where
  "store_handle handle_id h w = w\<lparr>handles := (handles w)[nat handle_id := Some h]\<rparr>"

subsection \<open>The handle table\<close>

definition get_handle :: "world \<Rightarrow> int \<Rightarrow> QemuHandle option" where
  "get_handle w handle_id =
     (if 0 \<le> handle_id \<and> handle_id < int MAX_HANDLES then handles w ! nat handle_id
      else None)"

text \<open>The loop of \<open>allocate_handle\<close>, from index \<open>i\<close> on. A failed \<open>calloc\<close> stores
  \<open>NULL\<close> in a slot that held \<open>NULL\<close>, and the scan goes on.\<close>

function allocate_from :: "os \<Rightarrow> nat \<Rightarrow> world \<Rightarrow> int \<times> world" where
  "allocate_from os i w =
     (if i < MAX_HANDLES then
        (if handles w ! i = None then
           (let (p, w1) = sys os Calloc w in
            if p \<noteq> 0 then (int i, store_handle (int i) zero_handle w1)
            else allocate_from os (Suc i) w1)
         else allocate_from os (Suc i) w)
      else (-1, w))"
  by pat_completeness auto
termination
  by (relation "measure (\<lambda>(os, i, w). MAX_HANDLES - i)") auto

declare allocate_from.simps [simp del]

definition allocate_handle :: "os \<Rightarrow> world \<Rightarrow> int \<times> world" where
  "allocate_handle os w = allocate_from os 0 w"

definition free_handle :: "int \<Rightarrow> world \<Rightarrow> world" where
  "free_handle handle_id w =
     (if 0 \<le> handle_id \<and> handle_id < int MAX_HANDLES \<and> handles w ! nat handle_id \<noteq> None
      then (emit (Free (nat handle_id)) w)\<lparr>handles := (handles w)[nat handle_id := None]\<rparr>
      else w)"

subsection \<open>Create Disk Image\<close>

text \<open>The loop that stores the size, most significant byte first.\<close>

function put_size :: "64 word \<Rightarrow> nat \<Rightarrow> byte list \<Rightarrow> byte list" where
  "put_size size_bytes i header =
     (if i < 8 then
        put_size size_bytes (Suc i)
          (header[24 + i := ucast (drop_bit (56 - i * 8) size_bytes AND 0xFF)])
      else header)"
  by pat_completeness auto
termination
  by (relation "measure (\<lambda>(s, i, h). 8 - i)") auto

declare put_size.simps [simp del]

definition disk_header :: "jint \<Rightarrow> byte list" where
  "disk_header size_mb =
     (let header = replicate 512 0;
          header = header[0 := 0x51];
          header = header[1 := 0x46];
          header = header[2 := 0x49];
          header = header[3 := 0xFB];
          header = header[4 := 0];
          header = header[5 := 0];
          header = header[6 := 0];
          header = header[7 := 3];
          size_bytes = (scast size_mb :: 64 word) * 1024 * 1024;
          header = put_size size_bytes 0 header;
          header = header[20 := 0];
          header = header[21 := 0];
          header = header[22 := 0];
          header = header[23 := 16]
      in header)"

definition nativeCreateDisk :: "os \<Rightarrow> string option \<Rightarrow> jint \<Rightarrow> world \<Rightarrow> bool \<times> world" where
  "nativeCreateDisk os path size_mb w =
     (case path of
        None \<Rightarrow> (False, w)
      | Some disk_path \<Rightarrow>
          (let (fp, w1) = sys os (Fopen disk_path ''wb'') w in
           if fp = 0 then (False, w1)
           else (True, emit Fclose (emit (Fwrite (disk_header size_mb)) w1))))"

subsection \<open>Start Process\<close>

text \<open>\<open>%d\<close> of \<open>snprintf\<close>, and \<open>snprintf\<close> itself: of the text to print, a buffer of
  \<open>n\<close> bytes keeps the first \<open>n - 1\<close>, before the terminating zero.\<close>

definition digit_char :: "nat \<Rightarrow> char" where
  "digit_char d = ''0123456789'' ! d"

fun dec_nat :: "nat \<Rightarrow> string" where
  "dec_nat n = (if n < 10 then [digit_char n] else dec_nat (n div 10) @ [digit_char (n mod 10)])"

declare dec_nat.simps [simp del]

definition fmt_d :: "jint \<Rightarrow> string" where
  "fmt_d x = (if sint x < 0 then CHR ''-'' # dec_nat (nat (- sint x)) else dec_nat (nat (sint x)))"

definition snprintf :: "nat \<Rightarrow> string \<Rightarrow> string" where
  "snprintf n s = take (n - 1) s"

text \<open>How a call of \<open>nativeStart\<close> ends: it returns a \<open>jlong\<close> to the caller, or, in the
  child, the image is replaced or the process exits; \<open>Crashed\<close> is a write through a
  \<open>NULL\<close> handle.\<close>

datatype outcome = Returned int | Replaced | Exited int | Crashed

text \<open>The label \<open>cleanup\<close> is reached by a jump over the initialisation of
  \<open>handle_id\<close> when a string is missing: what is returned then is whatever the
  variable holds, the argument \<open>junk\<close>.\<close>

definition nativeStart ::
  "os \<Rightarrow> int \<Rightarrow> string option \<Rightarrow> string option \<Rightarrow> string option \<Rightarrow> jint \<Rightarrow> jint \<Rightarrow>
   string option \<Rightarrow> world \<Rightarrow> outcome \<times> world" where
  "nativeStart os junk qemu_binary iso_path disk_path ram_mb cpu_cores ports w =
     (case (qemu_binary, iso_path, disk_path, ports) of
        (Some binary, Some iso_s, Some disk, Some port_str) \<Rightarrow>
          (let (handle_id, w1) = allocate_handle os w in
           if handle_id < 0 then (Returned handle_id, w1)
           else
             (let (p, w2) = sys os Fork w1 in
              if p < 0 then (Returned (-1), free_handle handle_id w2)
              else if p = 0 then
                (let ram_arg = snprintf 32 (fmt_d ram_mb @ ''M'');
                     smp_arg = snprintf 32 (fmt_d cpu_cores);
                     netdev_arg = snprintf 512 (''user,id=net0,'' @ port_str);
                     (r, w3) = sys os (Execlp binary
                       [binary,
                        ''-machine'', ''q35'',
                        ''-cpu'', ''max'',
                        ''-smp'', smp_arg,
                        ''-m'', ram_arg,
                        ''-cdrom'', iso_s,
                        ''-drive'', ''file=%s,format=qcow2,if=virtio'',
                        ''-boot'', ''d'',
                        ''-netdev'', netdev_arg,
                        ''-device'', ''virtio-net-pci,netdev=net0'',
                        ''-display'', ''none'',
                        ''-nographic'']) w2
                 in if r = 0 then (Replaced, w3) else (Exited 1, emit (Exit 1) w3))
              else
                (case handles w2 ! nat handle_id of
                   None \<Rightarrow> (Crashed, w2)
                 | Some handle \<Rightarrow>
                     (Returned handle_id,
                      store_handle handle_id (handle\<lparr>pid := p, running := 1\<rparr>) w2))))
      | _ \<Rightarrow> (Returned junk, w))"

subsection \<open>Stop Process, Get Status, Cleanup\<close>

text \<open>The polling loop of \<open>nativeStop\<close>, from attempt \<open>i\<close> on: \<open>True\<close> when an exit was
  seen.\<close>

function stop_poll :: "os \<Rightarrow> int \<Rightarrow> nat \<Rightarrow> world \<Rightarrow> bool \<times> world" where
  "stop_poll os p i w =
     (if i < 50 then
        (let (result, w1) = sys os (Waitpid p WNOHANG) w in
         if result = p then (True, w1)
         else stop_poll os p (Suc i) (emit (Usleep 100000) w1))
      else (False, w))"
  by pat_completeness auto
termination
  by (relation "measure (\<lambda>(os, p, i, w). 50 - i)") auto

declare stop_poll.simps [simp del]

text \<open>The tail of \<open>nativeStop\<close>, under the comment \<open>Force kill\<close>.\<close>

definition force_kill :: "int \<Rightarrow> QemuHandle \<Rightarrow> world \<Rightarrow> bool \<times> world" where
  "force_kill handle_id handle w =
     (True, store_handle handle_id (handle\<lparr>running := 0\<rparr>)
              (emit (Waitpid (pid handle) NO_OPTIONS) (emit (Kill (pid handle) SIGKILL) w)))"

definition nativeStop :: "os \<Rightarrow> int \<Rightarrow> world \<Rightarrow> bool \<times> world" where
  "nativeStop os handle_id w =
     (case get_handle w handle_id of
        None \<Rightarrow> (False, w)
      | Some handle \<Rightarrow>
          if running handle = 0 then (True, w)
          else
            (let (k, w1) = sys os (Kill (pid handle) SIGTERM) w in
             if k = 0 then
               (case stop_poll os (pid handle) 0 w1 of
                  (True, w2) \<Rightarrow> (True, store_handle handle_id (handle\<lparr>running := 0\<rparr>) w2)
                | (False, w2) \<Rightarrow> force_kill handle_id handle w2)
             else force_kill handle_id handle w1))"

definition nativeGetStatus :: "os \<Rightarrow> int \<Rightarrow> world \<Rightarrow> int \<times> world" where
  "nativeGetStatus os handle_id w =
     (case get_handle w handle_id of
        None \<Rightarrow> (-1, w)
      | Some handle \<Rightarrow>
          if running handle = 0 then (0, w)
          else
            (let (result, w1) = sys os (Waitpid (pid handle) WNOHANG) w in
             if result = 0 then (1, w1)
             else if result = pid handle
               then (0, store_handle handle_id (handle\<lparr>running := 0\<rparr>) w1)
             else (-1, w1)))"

definition nativeCleanup :: "os \<Rightarrow> int \<Rightarrow> world \<Rightarrow> world" where
  "nativeCleanup os handle_id w =
     (case get_handle w handle_id of
        None \<Rightarrow> w
      | Some handle \<Rightarrow>
          free_handle handle_id
            (if running handle \<noteq> 0
             then emit (Waitpid (pid handle) NO_OPTIONS) (emit (Kill (pid handle) SIGKILL) w)
             else w))"

subsection \<open>Notions used in the statements\<close>

text \<open>The value of a byte string read as a big-endian unsigned integer.\<close>

definition be_decode :: "byte list \<Rightarrow> nat" where
  "be_decode bs = foldl (\<lambda>a b. a * 256 + unat b) 0 bs"

text \<open>The calls of \<open>k\<close> rounds of the polling loop that saw no exit: a non-blocking
  wait and a sleep of 100000 microseconds each.\<close>

definition poll_rounds :: "int \<Rightarrow> nat \<Rightarrow> syscall list" where
  "poll_rounds p k = concat (replicate k [Waitpid p WNOHANG, Usleep 100000])"

text \<open>The empty table, as the static initialiser \<open>{NULL}\<close> leaves it.\<close>

definition empty_table :: "QemuHandle option list" where
  "empty_table = replicate MAX_HANDLES None"

section \<open>Invalid handles\<close>

text \<open>
  Claim C8. For every handle id outside [0,4), and for every id whose slot is empty, Get
  Status returns -1, Stop Process returns false, and Cleanup does nothing: none of the
  three changes the table or makes a system call.
\<close>

theorem invalid_handle_rejected:
  assumes "handle_id < 0 \<or> 4 \<le> handle_id \<or> handles w ! nat handle_id = None"
  shows "nativeGetStatus os handle_id w = (-1, w)
       \<and> nativeStop os handle_id w = (False, w)
       \<and> nativeCleanup os handle_id w = w"
proof -
  from assms have "get_handle w handle_id = None"
    by (auto simp: get_handle_def MAX_HANDLES_def)
  then show ?thesis
    by (simp add: nativeGetStatus_def nativeStop_def nativeCleanup_def)
qed

theorem invalid_handle_rejected_witness:
  "((7::int) < 0 \<or> 4 \<le> (7::int)
      \<or> handles \<lparr>handles = [None, None, None, None], trace = []\<rparr> ! nat 7 = None)
   \<and> nativeGetStatus (\<lambda>tr c. 0) 7 \<lparr>handles = [None, None, None, None], trace = []\<rparr>
        = (-1, \<lparr>handles = [None, None, None, None], trace = []\<rparr>)
   \<and> nativeStop (\<lambda>tr c. 0) 7 \<lparr>handles = [None, None, None, None], trace = []\<rparr>
        = (False, \<lparr>handles = [None, None, None, None], trace = []\<rparr>)
   \<and> nativeCleanup (\<lambda>tr c. 0) 7 \<lparr>handles = [None, None, None, None], trace = []\<rparr>
        = \<lparr>handles = [None, None, None, None], trace = []\<rparr>"
  using invalid_handle_rejected
    [of 7 "\<lparr>handles = [None, None, None, None], trace = []\<rparr>" "\<lambda>tr c. 0"]
  by simp

section \<open>Stop Process\<close>

lemma poll_rounds_0: "poll_rounds p 0 = []"
  by (simp add: poll_rounds_def)

lemma poll_rounds_Suc:
  "poll_rounds p (Suc k) = [Waitpid p WNOHANG, Usleep 100000] @ poll_rounds p k"
  by (simp add: poll_rounds_def)

text \<open>The loop ends at the first attempt that sees the exit, \<open>k\<close> rounds after its
  start.\<close>

lemma stop_poll_exit:
  "i + k < 50 \<Longrightarrow>
   (\<forall>j<k. os (trace w @ poll_rounds p j) (Waitpid p WNOHANG) \<noteq> p) \<Longrightarrow>
   os (trace w @ poll_rounds p k) (Waitpid p WNOHANG) = p \<Longrightarrow>
   stop_poll os p i w = (True, w\<lparr>trace := trace w @ poll_rounds p k @ [Waitpid p WNOHANG]\<rparr>)"
proof (induction k arbitrary: i w)
  case 0
  then show ?case
    by (simp add: stop_poll.simps [of os p i w] sys_def emit_def poll_rounds_0)
next
  case (Suc k)
  let ?w2 = "emit (Usleep 100000) (emit (Waitpid p WNOHANG) w)"
  have first: "os (trace w) (Waitpid p WNOHANG) \<noteq> p"
    using Suc.prems(2) [rule_format, of 0] by (simp add: poll_rounds_0)
  have tr2: "trace ?w2 = trace w @ [Waitpid p WNOHANG, Usleep 100000]"
    by (simp add: emit_def)
  have later: "\<forall>j<k. os (trace ?w2 @ poll_rounds p j) (Waitpid p WNOHANG) \<noteq> p"
    using Suc.prems(2) by (auto simp: tr2 poll_rounds_Suc dest: spec [of _ "Suc j" for j])
  have last: "os (trace ?w2 @ poll_rounds p k) (Waitpid p WNOHANG) = p"
    using Suc.prems(3) by (simp add: tr2 poll_rounds_Suc)
  have "stop_poll os p (Suc i) ?w2
      = (True, ?w2\<lparr>trace := trace ?w2 @ poll_rounds p k @ [Waitpid p WNOHANG]\<rparr>)"
    using Suc.prems(1) by (intro Suc.IH later last) simp
  moreover have "stop_poll os p i w = stop_poll os p (Suc i) ?w2"
    using Suc.prems(1) first by (simp add: stop_poll.simps [of os p i w] sys_def)
  ultimately show ?case
    by (simp add: emit_def poll_rounds_Suc)
qed

text \<open>With no exit seen, the loop gives up when the attempts reach 50.\<close>

lemma stop_poll_timeout:
  "i + k = 50 \<Longrightarrow>
   (\<forall>j<k. os (trace w @ poll_rounds p j) (Waitpid p WNOHANG) \<noteq> p) \<Longrightarrow>
   stop_poll os p i w = (False, w\<lparr>trace := trace w @ poll_rounds p k\<rparr>)"
proof (induction k arbitrary: i w)
  case 0
  then show ?case
    by (simp add: stop_poll.simps [of os p 50 w] poll_rounds_0)
next
  case (Suc k)
  let ?w2 = "emit (Usleep 100000) (emit (Waitpid p WNOHANG) w)"
  have first: "os (trace w) (Waitpid p WNOHANG) \<noteq> p"
    using Suc.prems(2) [rule_format, of 0] by (simp add: poll_rounds_0)
  have tr2: "trace ?w2 = trace w @ [Waitpid p WNOHANG, Usleep 100000]"
    by (simp add: emit_def)
  have later: "\<forall>j<k. os (trace ?w2 @ poll_rounds p j) (Waitpid p WNOHANG) \<noteq> p"
    using Suc.prems(2) by (auto simp: tr2 poll_rounds_Suc dest: spec [of _ "Suc j" for j])
  have "stop_poll os p (Suc i) ?w2 = (False, ?w2\<lparr>trace := trace ?w2 @ poll_rounds p k\<rparr>)"
    using Suc.prems(1) by (intro Suc.IH later) simp
  moreover have "stop_poll os p i w = stop_poll os p (Suc i) ?w2"
    using Suc.prems(1) first by (simp add: stop_poll.simps [of os p i w] sys_def)
  ultimately show ?case
    by (simp add: emit_def poll_rounds_Suc)
qed

text \<open>
  Claim C4. Stop Process on a valid handle whose record is marked running sends the
  graceful signal first. If it could not be delivered, the forced signal and a blocking
  wait follow at once. If it was delivered, a non-blocking wait is made every 100
  milliseconds: when attempt \<open>k < 50\<close> is the first to see the exit, the call ends there,
  and no forced signal is among its calls; when none of the 50 attempts sees it, the
  forced signal and a blocking wait follow. In each case the record is marked
  not-running and the result is true.
\<close>

theorem stop_escalation:
  assumes h: "get_handle w handle_id = Some handle" and r: "running handle \<noteq> 0"
  shows "(os (trace w) (Kill (pid handle) SIGTERM) \<noteq> 0 \<longrightarrow>
           nativeStop os handle_id w =
             (True, store_handle handle_id (handle\<lparr>running := 0\<rparr>)
                (w\<lparr>trace := trace w @ [Kill (pid handle) SIGTERM, Kill (pid handle) SIGKILL,
                                        Waitpid (pid handle) NO_OPTIONS]\<rparr>)))
       \<and> (os (trace w) (Kill (pid handle) SIGTERM) = 0 \<and> k < 50
           \<and> (\<forall>j<k. os (trace w @ Kill (pid handle) SIGTERM # poll_rounds (pid handle) j)
                        (Waitpid (pid handle) WNOHANG) \<noteq> pid handle)
           \<and> os (trace w @ Kill (pid handle) SIGTERM # poll_rounds (pid handle) k)
                (Waitpid (pid handle) WNOHANG) = pid handle \<longrightarrow>
           nativeStop os handle_id w =
             (True, store_handle handle_id (handle\<lparr>running := 0\<rparr>)
                (w\<lparr>trace := trace w @ Kill (pid handle) SIGTERM # poll_rounds (pid handle) k
                                @ [Waitpid (pid handle) WNOHANG]\<rparr>))
           \<and> Kill (pid handle) SIGKILL
               \<notin> set (Kill (pid handle) SIGTERM # poll_rounds (pid handle) k
                        @ [Waitpid (pid handle) WNOHANG]))
       \<and> (os (trace w) (Kill (pid handle) SIGTERM) = 0
           \<and> (\<forall>j<50. os (trace w @ Kill (pid handle) SIGTERM # poll_rounds (pid handle) j)
                        (Waitpid (pid handle) WNOHANG) \<noteq> pid handle) \<longrightarrow>
           nativeStop os handle_id w =
             (True, store_handle handle_id (handle\<lparr>running := 0\<rparr>)
                (w\<lparr>trace := trace w @ Kill (pid handle) SIGTERM # poll_rounds (pid handle) 50
                                @ [Kill (pid handle) SIGKILL, Waitpid (pid handle) NO_OPTIONS]\<rparr>)))"
proof (intro conjI impI)
  let ?p = "pid handle"
  let ?w1 = "emit (Kill ?p SIGTERM) w"
  have tr1: "trace ?w1 = trace w @ [Kill ?p SIGTERM]"
    by (simp add: emit_def)
  {
    assume "os (trace w) (Kill ?p SIGTERM) \<noteq> 0"
    with h r show "nativeStop os handle_id w =
             (True, store_handle handle_id (handle\<lparr>running := 0\<rparr>)
                (w\<lparr>trace := trace w @ [Kill ?p SIGTERM, Kill ?p SIGKILL, Waitpid ?p NO_OPTIONS]\<rparr>))"
      by (simp add: nativeStop_def sys_def force_kill_def emit_def)
  }
  {
    assume a: "os (trace w) (Kill ?p SIGTERM) = 0 \<and> k < 50
           \<and> (\<forall>j<k. os (trace w @ Kill ?p SIGTERM # poll_rounds ?p j) (Waitpid ?p WNOHANG) \<noteq> ?p)
           \<and> os (trace w @ Kill ?p SIGTERM # poll_rounds ?p k) (Waitpid ?p WNOHANG) = ?p"
    then have "stop_poll os ?p 0 ?w1
        = (True, ?w1\<lparr>trace := trace ?w1 @ poll_rounds ?p k @ [Waitpid ?p WNOHANG]\<rparr>)"
      by (intro stop_poll_exit) (simp_all add: tr1)
    with a h r show "nativeStop os handle_id w =
             (True, store_handle handle_id (handle\<lparr>running := 0\<rparr>)
                (w\<lparr>trace := trace w @ Kill ?p SIGTERM # poll_rounds ?p k @ [Waitpid ?p WNOHANG]\<rparr>))"
      by (simp add: nativeStop_def sys_def emit_def)
    show "Kill ?p SIGKILL \<notin> set (Kill ?p SIGTERM # poll_rounds ?p k @ [Waitpid ?p WNOHANG])"
      by (auto simp: poll_rounds_def)
  }
  {
    assume a: "os (trace w) (Kill ?p SIGTERM) = 0
           \<and> (\<forall>j<50. os (trace w @ Kill ?p SIGTERM # poll_rounds ?p j) (Waitpid ?p WNOHANG) \<noteq> ?p)"
    then have "stop_poll os ?p 0 ?w1 = (False, ?w1\<lparr>trace := trace ?w1 @ poll_rounds ?p 50\<rparr>)"
      by (intro stop_poll_timeout) (simp_all add: tr1)
    with a h r show "nativeStop os handle_id w =
             (True, store_handle handle_id (handle\<lparr>running := 0\<rparr>)
                (w\<lparr>trace := trace w @ Kill ?p SIGTERM # poll_rounds ?p 50
                                @ [Kill ?p SIGKILL, Waitpid ?p NO_OPTIONS]\<rparr>))"
      by (simp add: nativeStop_def sys_def emit_def force_kill_def)
  }
qed

text \<open>The three cases at a record of process 42 in slot 0: a signal that cannot be
  delivered; an exit seen by the third attempt; a process that never exits.\<close>

theorem stop_escalation_witness:
  "get_handle \<lparr>handles = [Some (zero_handle\<lparr>pid := 42, running := 1\<rparr>), None, None, None],
               trace = []\<rparr> 0 = Some (zero_handle\<lparr>pid := 42, running := 1\<rparr>)
   \<and> running (zero_handle\<lparr>pid := 42, running := 1\<rparr>) \<noteq> 0
   \<and> nativeStop (\<lambda>tr c. 1) 0
        \<lparr>handles = [Some (zero_handle\<lparr>pid := 42, running := 1\<rparr>), None, None, None], trace = []\<rparr>
      = (True, \<lparr>handles = [Some (zero_handle\<lparr>pid := 42, running := 0\<rparr>), None, None, None],
                trace = [Kill 42 SIGTERM, Kill 42 SIGKILL, Waitpid 42 NO_OPTIONS]\<rparr>)
   \<and> nativeStop (\<lambda>tr c. if c = Waitpid 42 WNOHANG \<and> length tr = 5 then 42 else 0) 0
        \<lparr>handles = [Some (zero_handle\<lparr>pid := 42, running := 1\<rparr>), None, None, None], trace = []\<rparr>
      = (True, \<lparr>handles = [Some (zero_handle\<lparr>pid := 42, running := 0\<rparr>), None, None, None],
                trace = [Kill 42 SIGTERM, Waitpid 42 WNOHANG, Usleep 100000,
                         Waitpid 42 WNOHANG, Usleep 100000, Waitpid 42 WNOHANG]\<rparr>)
   \<and> nativeStop (\<lambda>tr c. 0) 0
        \<lparr>handles = [Some (zero_handle\<lparr>pid := 42, running := 1\<rparr>), None, None, None], trace = []\<rparr>
      = (True, \<lparr>handles = [Some (zero_handle\<lparr>pid := 42, running := 0\<rparr>), None, None, None],
                trace = Kill 42 SIGTERM # poll_rounds 42 50
                          @ [Kill 42 SIGKILL, Waitpid 42 NO_OPTIONS]\<rparr>)"
proof -
  let ?h = "zero_handle\<lparr>pid := 42, running := 1\<rparr>"
  let ?w = "\<lparr>handles = [Some ?h, None, None, None], trace = []\<rparr>"
  have g: "get_handle ?w 0 = Some ?h"
    by (simp add: get_handle_def MAX_HANDLES_def)
  have r: "running ?h \<noteq> 0"
    by simp
  have two: "poll_rounds 42 2 = [Waitpid 42 WNOHANG, Usleep 100000, Waitpid 42 WNOHANG, Usleep 100000]"
    by (simp add: poll_rounds_def numeral_2_eq_2)
  have len: "length (poll_rounds 42 j) = 2 * j" for j
    by (induction j) (simp_all add: poll_rounds_0 poll_rounds_Suc)
  show ?thesis
    using stop_escalation [OF g r, of "\<lambda>tr c. 1" 0]
      stop_escalation [OF g r, of "\<lambda>tr c. if c = Waitpid 42 WNOHANG \<and> length tr = 5 then 42 else 0" 2]
      stop_escalation [OF g r, of "\<lambda>tr c. 0" 0]
    by (simp add: g two len store_handle_def)
qed

text \<open>
  Claim C7. Stop Process returns true exactly when the handle id is valid. On a valid
  handle whose record is already marked not-running it returns true at once: no system
  call is made, so no signal is delivered, and the table is unchanged.
\<close>

theorem stop_true_unless_invalid:
  "fst (nativeStop os handle_id w) = (get_handle w handle_id \<noteq> None)
   \<and> (get_handle w handle_id = Some handle \<and> running handle = 0 \<longrightarrow>
        nativeStop os handle_id w = (True, w))"
proof -
  have "fst (nativeStop os handle_id w)" if "get_handle w handle_id = Some h" for h
  proof (cases "running h = 0")
    case True
    with that show ?thesis by (simp add: nativeStop_def)
  next
    case False
    obtain b w2 where "stop_poll os (pid h) 0 (emit (Kill (pid h) SIGTERM) w) = (b, w2)"
      by (cases "stop_poll os (pid h) 0 (emit (Kill (pid h) SIGTERM) w)")
    with that False show ?thesis
      by (cases b) (simp_all add: nativeStop_def sys_def force_kill_def)
  qed
  moreover have "\<not> fst (nativeStop os handle_id w)" if "get_handle w handle_id = None"
    using that by (simp add: nativeStop_def)
  ultimately show ?thesis
    by (cases "get_handle w handle_id") (auto simp: nativeStop_def)
qed

theorem stop_true_unless_invalid_witness:
  "get_handle \<lparr>handles = [None, Some (zero_handle\<lparr>pid := 42\<rparr>), None, None], trace = []\<rparr> 1
     = Some (zero_handle\<lparr>pid := 42\<rparr>)
   \<and> running (zero_handle\<lparr>pid := 42\<rparr>) = 0
   \<and> nativeStop (\<lambda>tr c. 0) 1
        \<lparr>handles = [None, Some (zero_handle\<lparr>pid := 42\<rparr>), None, None], trace = []\<rparr>
      = (True, \<lparr>handles = [None, Some (zero_handle\<lparr>pid := 42\<rparr>), None, None], trace = []\<rparr>)"
  using stop_true_unless_invalid [of "\<lambda>tr c. 0" 1
    "\<lparr>handles = [None, Some (zero_handle\<lparr>pid := 42\<rparr>), None, None], trace = []\<rparr>"
    "zero_handle\<lparr>pid := 42\<rparr>"]
  by (simp add: get_handle_def MAX_HANDLES_def zero_handle_def)

section \<open>Get Status\<close>

text \<open>
  Claim C5. Get Status returns -1 for an invalid handle and 0, with no system call, when
  the record is marked not-running. Otherwise it makes one non-blocking wait: the answer
  0 (not exited) gives 1; the process id (exited) gives 0 and marks the record
  not-running, after which Get Status gives 0 again with no system call, whatever the
  system would answer; any other answer gives -1.
\<close>

theorem get_status_cases:
  assumes len: "length (handles w) = 4"
  shows "(get_handle w handle_id = None \<longrightarrow> nativeGetStatus os handle_id w = (-1, w))
   \<and> (get_handle w handle_id = Some handle \<and> running handle = 0 \<longrightarrow>
        nativeGetStatus os handle_id w = (0, w))
   \<and> (get_handle w handle_id = Some handle \<and> running handle \<noteq> 0
        \<and> os (trace w) (Waitpid (pid handle) WNOHANG) = 0 \<longrightarrow>
        nativeGetStatus os handle_id w = (1, emit (Waitpid (pid handle) WNOHANG) w))
   \<and> (get_handle w handle_id = Some handle \<and> running handle \<noteq> 0
        \<and> os (trace w) (Waitpid (pid handle) WNOHANG) \<noteq> 0
        \<and> os (trace w) (Waitpid (pid handle) WNOHANG) = pid handle \<longrightarrow>
        nativeGetStatus os handle_id w
          = (0, store_handle handle_id (handle\<lparr>running := 0\<rparr>)
                  (emit (Waitpid (pid handle) WNOHANG) w))
        \<and> nativeGetStatus os' handle_id
            (store_handle handle_id (handle\<lparr>running := 0\<rparr>)
               (emit (Waitpid (pid handle) WNOHANG) w))
          = (0, store_handle handle_id (handle\<lparr>running := 0\<rparr>)
                  (emit (Waitpid (pid handle) WNOHANG) w)))
   \<and> (get_handle w handle_id = Some handle \<and> running handle \<noteq> 0
        \<and> os (trace w) (Waitpid (pid handle) WNOHANG) \<noteq> 0
        \<and> os (trace w) (Waitpid (pid handle) WNOHANG) \<noteq> pid handle \<longrightarrow>
        nativeGetStatus os handle_id w = (-1, emit (Waitpid (pid handle) WNOHANG) w))"
proof -
  have again: "nativeGetStatus os' handle_id
            (store_handle handle_id (handle\<lparr>running := 0\<rparr>) (emit c w))
          = (0, store_handle handle_id (handle\<lparr>running := 0\<rparr>) (emit c w))"
    if "get_handle w handle_id = Some handle" for c
  proof -
    from that have "0 \<le> handle_id" "handle_id < 4"
      by (auto simp: get_handle_def MAX_HANDLES_def split: if_splits)
    with len have "get_handle (store_handle handle_id (handle\<lparr>running := 0\<rparr>) (emit c w)) handle_id
        = Some (handle\<lparr>running := 0\<rparr>)"
      by (simp add: get_handle_def MAX_HANDLES_def store_handle_def emit_def)
    then show ?thesis
      by (simp add: nativeGetStatus_def)
  qed
  show ?thesis
    using again by (simp add: nativeGetStatus_def sys_def)
qed

text \<open>At a record of process 42 in slot 2, with a system that reports the exit.\<close>

theorem get_status_cases_witness:
  "length (handles \<lparr>handles = [None, None, Some (zero_handle\<lparr>pid := 42, running := 1\<rparr>), None],
                    trace = []\<rparr>) = 4
   \<and> nativeGetStatus (\<lambda>tr c. 42) 2
        \<lparr>handles = [None, None, Some (zero_handle\<lparr>pid := 42, running := 1\<rparr>), None], trace = []\<rparr>
      = (0, \<lparr>handles = [None, None, Some (zero_handle\<lparr>pid := 42, running := 0\<rparr>), None],
             trace = [Waitpid 42 WNOHANG]\<rparr>)
   \<and> nativeGetStatus (\<lambda>tr c. 0) 2
        \<lparr>handles = [None, None, Some (zero_handle\<lparr>pid := 42, running := 0\<rparr>), None],
         trace = [Waitpid 42 WNOHANG]\<rparr>
      = (0, \<lparr>handles = [None, None, Some (zero_handle\<lparr>pid := 42, running := 0\<rparr>), None],
             trace = [Waitpid 42 WNOHANG]\<rparr>)"
proof -
  let ?h = "zero_handle\<lparr>pid := 42, running := 1\<rparr>"
  let ?w = "\<lparr>handles = [None, None, Some ?h, None], trace = []\<rparr>"
  have g: "get_handle ?w 2 = Some ?h"
    by (simp add: get_handle_def MAX_HANDLES_def)
  have l: "length (handles ?w) = 4"
    by simp
  show ?thesis
    using get_status_cases [OF l, of 2 "\<lambda>tr c. 42" ?h "\<lambda>tr c. 0"] g
    by (simp add: store_handle_def emit_def)
qed

section \<open>Start Process\<close>

text \<open>With a string missing, the call jumps to \<open>cleanup\<close> before anything else is
  done, and returns what the uninitialised \<open>handle_id\<close> holds.\<close>

lemma start_missing_string:
  assumes "qemu_binary = None \<or> iso_path = None \<or> disk_path = None \<or> ports = None"
  shows "nativeStart os junk qemu_binary iso_path disk_path ram_mb cpu_cores ports w
       = (Returned junk, w)"
  using assms by (auto simp: nativeStart_def split: option.splits)

text \<open>
  Claim C1. When a string input of Start Process cannot be obtained, the call is to
  abort without allocating a slot and return -1. The code leaves the table alone, but
  what it returns is not -1: here the executable path cannot be obtained while the
  uninitialised variable holds 3, and the call returns 3, the id of a slot.
\<close>

theorem start_missing_string_returns_junk:
  "nativeStart (\<lambda>tr c. 1) 3 None (Some ''boot.iso'') (Some ''disk.qcow2'') 1024 2
     (Some ''hostfwd=tcp::2375-:2375'') \<lparr>handles = [None, None, None, None], trace = []\<rparr>
   = (Returned 3, \<lparr>handles = [None, None, None, None], trace = []\<rparr>)"
  by (simp add: start_missing_string)

section \<open>Handle allocation\<close>

text \<open>What \<open>allocate_from\<close> can do to the table: nothing, when it fails, or fill one
  slot that was empty with a zeroed record.\<close>

lemma allocate_from_cases:
  "allocate_from os i w = (r, w') \<Longrightarrow>
     (r = -1 \<and> handles w' = handles w) \<or>
     (\<exists>j. r = int j \<and> i \<le> j \<and> j < MAX_HANDLES \<and> handles w ! j = None
          \<and> handles w' = (handles w)[j := Some zero_handle])"
proof (induction os i w rule: allocate_from.induct)
  case (1 os i w)
  show ?case
  proof (cases "i < MAX_HANDLES")
    case False
    with "1.prems" show ?thesis by (simp add: allocate_from.simps)
  next
    case inb: True
    show ?thesis
    proof (cases "handles w ! i = None")
      case False
      with inb "1.prems" have "allocate_from os (Suc i) w = (r, w')"
        by (simp add: allocate_from.simps [of os i w])
      from "1.IH"(2) [OF inb False this] show ?thesis
        by auto
    next
      case empty: True
      show ?thesis
      proof (cases "os (trace w) Calloc \<noteq> 0")
        case True
        with inb empty "1.prems" show ?thesis
          by (auto simp: allocate_from.simps [of os i w] sys_def emit_def store_handle_def)
      next
        case False
        with inb empty "1.prems" have "allocate_from os (Suc i) (emit Calloc w) = (r, w')"
          by (simp add: allocate_from.simps [of os i w] sys_def)
        then show ?thesis
          using "1.IH"(1) [OF inb empty, of "(os (trace w) Calloc, emit Calloc w)"
              "os (trace w) Calloc" "emit Calloc w"] False
          by (auto simp: sys_def emit_def)
      qed
    qed
  qed
qed

lemma allocate_handle_cases:
  assumes "allocate_handle os w = (r, w')"
  shows "(r = -1 \<and> handles w' = handles w) \<or>
     (0 \<le> r \<and> r < 4 \<and> handles w ! nat r = None
        \<and> handles w' = (handles w)[nat r := Some zero_handle])"
  using allocate_from_cases [OF assms [unfolded allocate_handle_def]]
  by (auto simp: MAX_HANDLES_def)

text \<open>Occupied slots are passed over without a system call.\<close>

lemma allocate_from_skip:
  "k \<le> i \<Longrightarrow> i \<le> MAX_HANDLES \<Longrightarrow> (\<forall>j. k \<le> j \<and> j < i \<longrightarrow> handles w ! j \<noteq> None) \<Longrightarrow>
   allocate_from os k w = allocate_from os i w"
proof (induction "i - k" arbitrary: k)
  case 0
  then show ?case by simp
next
  case (Suc d)
  then have "k < MAX_HANDLES" "handles w ! k \<noteq> None"
    by auto
  then obtain y where "k < MAX_HANDLES" "handles w ! k = Some y"
    by auto
  then have "allocate_from os k w = allocate_from os (Suc k) w"
    by (simp add: allocate_from.simps [of os k w])
  also have "\<dots> = allocate_from os i w"
    using Suc.prems Suc.hyps(2) by (intro Suc.hyps(1)) auto
  finally show ?case .
qed

lemma occupied_before:
  assumes "None \<notin> set (take i xs)" and "i \<le> length xs" and "j < i"
  shows "xs ! j \<noteq> None"
proof -
  from assms have "take i xs ! j \<in> set (take i xs)"
    by (intro nth_mem) simp
  with assms show ?thesis
    by (metis nth_take)
qed

lemma allocate_first_empty:
  assumes len: "length (handles w) = 4" and i: "i < 4" and empty: "handles w ! i = None"
      and before: "None \<notin> set (take i (handles w))" and ok: "os (trace w) Calloc \<noteq> 0"
  shows "allocate_handle os w
       = (int i, w\<lparr>handles := (handles w)[i := Some zero_handle], trace := trace w @ [Calloc]\<rparr>)"
proof -
  have "\<forall>j. 0 \<le> j \<and> j < i \<longrightarrow> handles w ! j \<noteq> None"
    using occupied_before [OF before] len i by simp
  then have "allocate_from os 0 w = allocate_from os i w"
    using i by (intro allocate_from_skip) (simp_all add: MAX_HANDLES_def)
  also have "\<dots> = (int i, w\<lparr>handles := (handles w)[i := Some zero_handle],
                              trace := trace w @ [Calloc]\<rparr>)"
    using i empty ok
    by (simp add: allocate_from.simps [of os i w] MAX_HANDLES_def sys_def emit_def store_handle_def)
  finally show ?thesis
    by (simp add: allocate_handle_def)
qed

lemma allocate_table_full:
  assumes len: "length (handles w) = 4" and full: "None \<notin> set (handles w)"
  shows "allocate_handle os w = (-1, w)"
proof -
  have "\<forall>j. 0 \<le> j \<and> j < MAX_HANDLES \<longrightarrow> handles w ! j \<noteq> None"
    using full len by (auto simp: MAX_HANDLES_def in_set_conv_nth)
  then have "allocate_from os 0 w = allocate_from os MAX_HANDLES w"
    by (intro allocate_from_skip) simp_all
  then show ?thesis
    by (simp add: allocate_handle_def allocate_from.simps [of os MAX_HANDLES w])
qed

text \<open>Where the first empty slot is.\<close>

lemma first_empty_slot:
  assumes "None \<in> set xs"
  obtains i where "i < length xs" "xs ! i = None" "None \<notin> set (take i xs)"
proof -
  from assms obtain ys zs where "xs = ys @ None # zs" "None \<notin> set ys"
    by (auto dest: split_list_first)
  then have "length ys < length xs" "xs ! length ys = None" "None \<notin> set (take (length ys) xs)"
    by simp_all
  then show ?thesis by (rule that)
qed

text \<open>Start Process in the parent, and on a full table.\<close>

lemma start_in_parent:
  assumes len: "length (handles w) = 4" and i: "i < 4" and empty: "handles w ! i = None"
      and before: "None \<notin> set (take i (handles w))" and ok: "os (trace w) Calloc \<noteq> 0"
      and parent: "0 < os (trace w @ [Calloc]) Fork"
  shows "nativeStart os junk (Some binary) (Some iso_s) (Some disk) ram_mb cpu_cores
           (Some port_str) w
       = (Returned (int i),
          w\<lparr>handles := (handles w)[i := Some (zero_handle\<lparr>pid := os (trace w @ [Calloc]) Fork,
                                                          running := 1\<rparr>)],
            trace := trace w @ [Calloc, Fork]\<rparr>)"
  using len i parent
  by (simp add: nativeStart_def allocate_first_empty [of w i os, OF len i empty before ok]
      sys_def emit_def store_handle_def)

lemma start_table_full:
  assumes len: "length (handles w) = 4" and full: "None \<notin> set (handles w)"
  shows "nativeStart os junk (Some binary) (Some iso_s) (Some disk) ram_mb cpu_cores
           (Some port_str) w = (Returned (-1), w)"
  by (simp add: nativeStart_def allocate_table_full [OF len full])

text \<open>
  Claim C9. When the duplication of the process fails in Start Process, the slot that
  was just allocated is freed and emptied before -1 is returned, so that the table is
  what it was before the call.
\<close>

theorem fork_failure_releases_slot:
  assumes len: "length (handles w) = 4"
      and alloc: "allocate_handle os w = (handle_id, w1)" and ok: "0 \<le> handle_id"
      and fail: "os (trace w1) Fork < 0"
  shows "nativeStart os junk (Some binary) (Some iso_s) (Some disk) ram_mb cpu_cores
           (Some port_str) w
       = (Returned (-1),
          w1\<lparr>handles := handles w, trace := trace w1 @ [Fork, Free (nat handle_id)]\<rparr>)
       \<and> handles w ! nat handle_id = None
       \<and> handles w1 = (handles w)[nat handle_id := Some zero_handle]"
proof -
  from allocate_handle_cases [OF alloc] ok
  have r: "handle_id < 4" and empty: "handles w ! nat handle_id = None"
    and filled: "handles w1 = (handles w)[nat handle_id := Some zero_handle]"
    by auto
  have restored: "(handles w1)[nat handle_id := None] = handles w"
    using empty by (simp add: filled) (metis list_update_id)
  have "handles w1 ! nat handle_id \<noteq> None"
    using len r ok by (simp add: filled)
  then have "free_handle handle_id (emit Fork w1)
      = w1\<lparr>handles := handles w, trace := trace w1 @ [Fork, Free (nat handle_id)]\<rparr>"
    using r ok restored by (simp add: free_handle_def MAX_HANDLES_def emit_def)
  then show ?thesis
    using alloc ok fail empty filled by (simp add: nativeStart_def sys_def)
qed

text \<open>On the empty table, with a system whose \<open>fork\<close> fails.\<close>

theorem fork_failure_releases_slot_witness:
  "length (handles \<lparr>handles = [None, None, None, None], trace = []\<rparr>) = 4
   \<and> allocate_handle (\<lambda>tr c. if c = Fork then -1 else 1)
        \<lparr>handles = [None, None, None, None], trace = []\<rparr>
      = (0, \<lparr>handles = [Some zero_handle, None, None, None], trace = [Calloc]\<rparr>)
   \<and> nativeStart (\<lambda>tr c. if c = Fork then -1 else 1) 0 (Some ''qemu'') (Some ''boot.iso'')
        (Some ''disk.qcow2'') 1024 2 (Some ''hostfwd=tcp::2375-:2375'')
        \<lparr>handles = [None, None, None, None], trace = []\<rparr>
      = (Returned (-1), \<lparr>handles = [None, None, None, None], trace = [Calloc, Fork, Free 0]\<rparr>)"
proof -
  let ?os = "\<lambda>tr c. if c = Fork then -1 else (1::int)"
  let ?w = "\<lparr>handles = [None, None, None, None], trace = []\<rparr>"
  let ?w1 = "\<lparr>handles = [Some zero_handle, None, None, None], trace = [Calloc]\<rparr>"
  have l: "length (handles ?w) = 4"
    by simp
  have a: "allocate_handle ?os ?w = (0, ?w1)"
    by (simp add: allocate_handle_def allocate_from.simps [of _ 0] MAX_HANDLES_def sys_def
        emit_def store_handle_def)
  have z: "(0::int) \<le> 0"
    by simp
  have f: "?os (trace ?w1) Fork < 0"
    by simp
  show ?thesis
    using fork_failure_releases_slot [OF l a z f, of 0 "''qemu''" "''boot.iso''" "''disk.qcow2''"
        1024 2 "''hostfwd=tcp::2375-:2375''"] a
    by simp
qed

text \<open>
  Claim C6. Handle allocation scans the four slots in index order. As stated the claim
  fails: with memory exhausted the allocation fails though every slot is empty. What
  holds: when the record can be allocated, the first empty slot is returned as the new
  handle id, holding a zeroed record; the allocation fails when all slots are occupied,
  and only then or when an allocation of a record fails. Hence, from the empty table,
  with a system that always allocates and always forks, five Start Process calls in a
  row return 0, 1, 2, 3 and -1.
\<close>

theorem allocation_order:
  fixes junk :: "nat \<Rightarrow> int" and binary iso_s disk port_str :: "nat \<Rightarrow> string"
    and ram_mb cpu_cores :: "nat \<Rightarrow> jint"
  assumes len: "length (handles w) = 4"
  shows "(i < 4 \<and> handles w ! i = None \<and> None \<notin> set (take i (handles w))
            \<and> os (trace w) Calloc \<noteq> 0 \<longrightarrow>
          allocate_handle os w
            = (int i, w\<lparr>handles := (handles w)[i := Some zero_handle],
                        trace := trace w @ [Calloc]\<rparr>))
       \<and> (None \<notin> set (handles w) \<longrightarrow> allocate_handle os w = (-1, w))
       \<and> (fst (allocate_handle os w) = -1 \<longrightarrow>
            None \<notin> set (handles w) \<or> (\<exists>tr. os tr Calloc = 0))
       \<and> (handles w = empty_table \<and> (\<forall>tr. os tr Calloc \<noteq> 0) \<and> (\<forall>tr. 0 < os tr Fork) \<longrightarrow>
            (let (o1, w1) = nativeStart os (junk 1) (Some (binary 1)) (Some (iso_s 1))
                              (Some (disk 1)) (ram_mb 1) (cpu_cores 1) (Some (port_str 1)) w;
                 (o2, w2) = nativeStart os (junk 2) (Some (binary 2)) (Some (iso_s 2))
                              (Some (disk 2)) (ram_mb 2) (cpu_cores 2) (Some (port_str 2)) w1;
                 (o3, w3) = nativeStart os (junk 3) (Some (binary 3)) (Some (iso_s 3))
                              (Some (disk 3)) (ram_mb 3) (cpu_cores 3) (Some (port_str 3)) w2;
                 (o4, w4) = nativeStart os (junk 4) (Some (binary 4)) (Some (iso_s 4))
                              (Some (disk 4)) (ram_mb 4) (cpu_cores 4) (Some (port_str 4)) w3;
                 (o5, w5) = nativeStart os (junk 5) (Some (binary 5)) (Some (iso_s 5))
                              (Some (disk 5)) (ram_mb 5) (cpu_cores 5) (Some (port_str 5)) w4
             in [o1, o2, o3, o4, o5]
                  = [Returned 0, Returned 1, Returned 2, Returned 3, Returned (-1)]))"
proof (intro conjI impI)
  assume "i < 4 \<and> handles w ! i = None \<and> None \<notin> set (take i (handles w))
            \<and> os (trace w) Calloc \<noteq> 0"
  then show "allocate_handle os w
            = (int i, w\<lparr>handles := (handles w)[i := Some zero_handle],
                        trace := trace w @ [Calloc]\<rparr>)"
    using allocate_first_empty [of w i os, OF len] by blast
next
  assume "None \<notin> set (handles w)"
  then show "allocate_handle os w = (-1, w)"
    by (rule allocate_table_full [OF len])
next
  assume failed: "fst (allocate_handle os w) = -1"
  show "None \<notin> set (handles w) \<or> (\<exists>tr. os tr Calloc = 0)"
  proof (rule ccontr)
    assume "\<not> (None \<notin> set (handles w) \<or> (\<exists>tr. os tr Calloc = 0))"
    then have some: "None \<in> set (handles w)" and ok: "os (trace w) Calloc \<noteq> 0"
      by auto
    from some obtain j where j: "j < length (handles w)" "handles w ! j = None"
      "None \<notin> set (take j (handles w))"
      by (rule first_empty_slot)
    from j(1) len have "j < 4"
      by simp
    from allocate_first_empty [of w j os, OF len this j(2) j(3) ok] failed show False
      by simp
  qed
next
  assume a: "handles w = empty_table \<and> (\<forall>tr. os tr Calloc \<noteq> 0) \<and> (\<forall>tr. 0 < os tr Fork)"
  then have c: "os tr Calloc \<noteq> 0" and f: "0 < os tr Fork" for tr
    by simp_all
  from a have t0: "handles w = [None, None, None, None]"
    by (simp add: empty_table_def MAX_HANDLES_def numeral_eq_Suc)
  define h where "h p = zero_handle\<lparr>pid := p, running := 1\<rparr>" for p :: int
  define p1 where "p1 = os (trace w @ [Calloc]) Fork"
  define w1 where "w1 = w\<lparr>handles := [Some (h p1), None, None, None],
                          trace := trace w @ [Calloc, Fork]\<rparr>"
  define p2 where "p2 = os (trace w1 @ [Calloc]) Fork"
  define w2 where "w2 = w1\<lparr>handles := [Some (h p1), Some (h p2), None, None],
                           trace := trace w1 @ [Calloc, Fork]\<rparr>"
  define p3 where "p3 = os (trace w2 @ [Calloc]) Fork"
  define w3 where "w3 = w2\<lparr>handles := [Some (h p1), Some (h p2), Some (h p3), None],
                           trace := trace w2 @ [Calloc, Fork]\<rparr>"
  define p4 where "p4 = os (trace w3 @ [Calloc]) Fork"
  define w4 where "w4 = w3\<lparr>handles := [Some (h p1), Some (h p2), Some (h p3), Some (h p4)],
                           trace := trace w3 @ [Calloc, Fork]\<rparr>"
  have s1: "nativeStart os j (Some b) (Some s) (Some d) r n (Some q) w = (Returned 0, w1)"
    for j b s d r n q
    using start_in_parent [of w 0 os j b s d r n q] c f
    by (simp add: t0 w1_def p1_def h_def)
  have s2: "nativeStart os j (Some b) (Some s) (Some d) r n (Some q) w1 = (Returned 1, w2)"
    for j b s d r n q
    using start_in_parent [of w1 1 os j b s d r n q] c f
    by (simp add: w1_def w2_def p2_def h_def)
  have s3: "nativeStart os j (Some b) (Some s) (Some d) r n (Some q) w2 = (Returned 2, w3)"
    for j b s d r n q
    using start_in_parent [of w2 2 os j b s d r n q] c f
    by (simp add: w2_def w3_def p3_def h_def)
  have s4: "nativeStart os j (Some b) (Some s) (Some d) r n (Some q) w3 = (Returned 3, w4)"
    for j b s d r n q
    using start_in_parent [of w3 3 os j b s d r n q] c f
    by (simp add: w3_def w4_def p4_def h_def)
  have s5: "nativeStart os j (Some b) (Some s) (Some d) r n (Some q) w4 = (Returned (-1), w4)"
    for j b s d r n q
    using start_table_full [of w4 os j b s d r n q]
    by (simp add: w4_def)
  show "let (o1, w1) = nativeStart os (junk 1) (Some (binary 1)) (Some (iso_s 1))
                              (Some (disk 1)) (ram_mb 1) (cpu_cores 1) (Some (port_str 1)) w;
                 (o2, w2) = nativeStart os (junk 2) (Some (binary 2)) (Some (iso_s 2))
                              (Some (disk 2)) (ram_mb 2) (cpu_cores 2) (Some (port_str 2)) w1;
                 (o3, w3) = nativeStart os (junk 3) (Some (binary 3)) (Some (iso_s 3))
                              (Some (disk 3)) (ram_mb 3) (cpu_cores 3) (Some (port_str 3)) w2;
                 (o4, w4) = nativeStart os (junk 4) (Some (binary 4)) (Some (iso_s 4))
                              (Some (disk 4)) (ram_mb 4) (cpu_cores 4) (Some (port_str 4)) w3;
                 (o5, w5) = nativeStart os (junk 5) (Some (binary 5)) (Some (iso_s 5))
                              (Some (disk 5)) (ram_mb 5) (cpu_cores 5) (Some (port_str 5)) w4
             in [o1, o2, o3, o4, o5]
                  = [Returned 0, Returned 1, Returned 2, Returned 3, Returned (-1)]"
    by (simp add: s1 s2 s3 s4 s5)
qed

text \<open>The first part at a table whose slot 0 is taken, the last from the empty table;
  the system answers 7 to every call.\<close>

theorem allocation_order_witness:
  "length (handles \<lparr>handles = [Some zero_handle, None, None, None], trace = []\<rparr>) = 4
   \<and> allocate_handle (\<lambda>tr c. 7) \<lparr>handles = [Some zero_handle, None, None, None], trace = []\<rparr>
      = (1, \<lparr>handles = [Some zero_handle, Some zero_handle, None, None], trace = [Calloc]\<rparr>)
   \<and> handles \<lparr>handles = [None, None, None, None], trace = []\<rparr> = empty_table
   \<and> (let (o1, w1) = nativeStart (\<lambda>tr c. 7) 0 (Some ''qemu'') (Some ''boot.iso'')
                        (Some ''disk.qcow2'') 1024 2 (Some ''hostfwd=tcp::2375-:2375'')
                        \<lparr>handles = [None, None, None, None], trace = []\<rparr>;
            (o2, w2) = nativeStart (\<lambda>tr c. 7) 0 (Some ''qemu'') (Some ''boot.iso'')
                        (Some ''disk.qcow2'') 1024 2 (Some ''hostfwd=tcp::2375-:2375'') w1;
            (o3, w3) = nativeStart (\<lambda>tr c. 7) 0 (Some ''qemu'') (Some ''boot.iso'')
                        (Some ''disk.qcow2'') 1024 2 (Some ''hostfwd=tcp::2375-:2375'') w2;
            (o4, w4) = nativeStart (\<lambda>tr c. 7) 0 (Some ''qemu'') (Some ''boot.iso'')
                        (Some ''disk.qcow2'') 1024 2 (Some ''hostfwd=tcp::2375-:2375'') w3;
            (o5, w5) = nativeStart (\<lambda>tr c. 7) 0 (Some ''qemu'') (Some ''boot.iso'')
                        (Some ''disk.qcow2'') 1024 2 (Some ''hostfwd=tcp::2375-:2375'') w4
        in [o1, o2, o3, o4, o5]
             = [Returned 0, Returned 1, Returned 2, Returned 3, Returned (-1)])"
  (is "?A \<and> ?B \<and> ?C \<and> ?D")
proof -
  let ?wa = "\<lparr>handles = [Some zero_handle, None, None, None], trace = []\<rparr>"
  let ?w0 = "\<lparr>handles = [None, None, None, None], trace = []\<rparr>"
  have la: ?A and l0: "length (handles ?w0) = 4"
    by simp_all
  have e: ?C
    by (simp add: empty_table_def MAX_HANDLES_def numeral_eq_Suc)
  have first: ?B
    using allocation_order [OF la, of 1 "\<lambda>tr c. 7"] by simp
  have os_fine: "handles ?w0 = empty_table \<and> (\<forall>tr::syscall list. (7::int) \<noteq> 0)
      \<and> (\<forall>tr::syscall list. (0::int) < 7)"
    using e by simp
  have five: ?D
    by (rule allocation_order [OF l0, of 0 "\<lambda>tr c. 7" "\<lambda>n. 0" "\<lambda>n. ''qemu''" "\<lambda>n. ''boot.iso''"
          "\<lambda>n. ''disk.qcow2''" "\<lambda>n. 1024" "\<lambda>n. 2" "\<lambda>n. ''hostfwd=tcp::2375-:2375''",
          THEN conjunct2, THEN conjunct2, THEN conjunct2, THEN mp, OF os_fine])
  show ?thesis
    by (rule conjI [OF la conjI [OF first conjI [OF e five]]])
qed

text \<open>With no memory to be had, \<open>calloc\<close> is tried for each of the four empty slots and
  the allocation fails.\<close>

theorem allocation_fails_on_empty_table:
  "allocate_handle (\<lambda>tr c. 0) \<lparr>handles = [None, None, None, None], trace = []\<rparr>
     = (-1, \<lparr>handles = [None, None, None, None], trace = [Calloc, Calloc, Calloc, Calloc]\<rparr>)
   \<and> None \<in> set (handles \<lparr>handles = [None, None, None, None], trace = []\<rparr>)"
  by (simp add: allocate_handle_def allocate_from.simps [of _ 0] allocate_from.simps [of _ "Suc 0"]
      allocate_from.simps [of _ "Suc (Suc 0)"] allocate_from.simps [of _ "Suc (Suc (Suc 0))"]
      allocate_from.simps [of _ "Suc (Suc (Suc (Suc 0)))"] MAX_HANDLES_def sys_def emit_def)

subsection \<open>The child\<close>

lemma dec_nat_length: "0 < k \<Longrightarrow> n < 10 ^ k \<Longrightarrow> length (dec_nat n) \<le> k"
proof (induction n arbitrary: k rule: dec_nat.induct)
  case (1 n)
  show ?case
  proof (cases "n < 10")
    case True
    with "1.prems" show ?thesis
      by (simp add: dec_nat.simps [of n])
  next
    case False
    from "1.prems"(1) obtain k' where k: "k = Suc k'"
      by (cases k) auto
    have pos: "0 < k'"
      using False "1.prems"(2) k by (cases k') auto
    have "n div 10 < 10 ^ k'"
      using "1.prems"(2) k by (simp add: less_mult_imp_div_less mult.commute)
    from "1.IH" [OF False pos this] show ?thesis
      using False k by (simp add: dec_nat.simps [of n])
  qed
qed

text \<open>A 32-bit integer prints in at most 11 characters, so the buffers of 32 bytes hold
  the core count and the memory size whole.\<close>

lemma fmt_d_length: "length (fmt_d x) \<le> 11"
proof -
  have lo: "- (2 ^ 31) \<le> sint x" and hi: "sint x < 2 ^ 31"
    using sint_ge [of x] sint_lt [of x] by simp_all
  have "length (dec_nat (nat (- sint x))) \<le> 10"
    using lo by (intro dec_nat_length) auto
  moreover have "length (dec_nat (nat (sint x))) \<le> 10"
    using hi by (intro dec_nat_length) auto
  ultimately show ?thesis
    by (simp add: fmt_d_def)
qed

lemma snprintf_fits: "length s < n \<Longrightarrow> snprintf n s = s"
  by (simp add: snprintf_def)

lemma smp_arg_whole: "snprintf 32 (fmt_d x) = fmt_d x"
  using fmt_d_length [of x] by (intro snprintf_fits) simp

lemma ram_arg_whole: "snprintf 32 (fmt_d x @ ''M'') = fmt_d x @ ''M''"
  using fmt_d_length [of x] by (intro snprintf_fits) simp

lemma start_in_child:
  assumes alloc: "allocate_handle os w = (handle_id, w1)" and ok: "0 \<le> handle_id"
      and child: "os (trace w1) Fork = 0"
  shows "nativeStart os junk (Some binary) (Some iso_s) (Some disk) ram_mb cpu_cores
           (Some port_str) w
       = (let call = Execlp binary
                [binary,
                 ''-machine'', ''q35'',
                 ''-cpu'', ''max'',
                 ''-smp'', fmt_d cpu_cores,
                 ''-m'', fmt_d ram_mb @ ''M'',
                 ''-cdrom'', iso_s,
                 ''-drive'', ''file=%s,format=qcow2,if=virtio'',
                 ''-boot'', ''d'',
                 ''-netdev'', take 511 (''user,id=net0,'' @ port_str),
                 ''-device'', ''virtio-net-pci,netdev=net0'',
                 ''-display'', ''none'',
                 ''-nographic'']
          in if os (trace w1 @ [Fork]) call = 0
             then (Replaced, w1\<lparr>trace := trace w1 @ [Fork, call]\<rparr>)
             else (Exited 1, w1\<lparr>trace := trace w1 @ [Fork, call, Exit 1]\<rparr>))"
  using alloc ok child
  by (simp add: nativeStart_def sys_def emit_def Let_def smp_arg_whole ram_arg_whole)
    (simp add: snprintf_def)

text \<open>
  Claim C3. In the child of a Start Process whose slot was allocated, the emulator
  executable is invoked with the fixed argument vector, in order; the drive argument is
  the template \<open>file=%s,format=qcow2,if=virtio\<close> as it stands, and the disk path is not
  used. As stated the claim fails for a port specification of more than 498 bytes: the
  network argument is built in a buffer of 512 bytes, which keeps the first 511 bytes of
  \<open>user,id=net0,\<close> followed by the port specification. What holds: the vector is as
  claimed with that network argument, which is the whole text when the port
  specification has at most 498 bytes. When the replacement fails, the child exits with
  status 1 at once.
\<close>

theorem child_invocation:
  assumes alloc: "allocate_handle os w = (handle_id, w1)" and ok: "0 \<le> handle_id"
      and child: "os (trace w1) Fork = 0"
  shows "nativeStart os junk (Some binary) (Some iso_s) (Some disk) ram_mb cpu_cores
           (Some port_str) w
       = (let call = Execlp binary
                [binary,
                 ''-machine'', ''q35'',
                 ''-cpu'', ''max'',
                 ''-smp'', fmt_d cpu_cores,
                 ''-m'', fmt_d ram_mb @ ''M'',
                 ''-cdrom'', iso_s,
                 ''-drive'', ''file=%s,format=qcow2,if=virtio'',
                 ''-boot'', ''d'',
                 ''-netdev'', take 511 (''user,id=net0,'' @ port_str),
                 ''-device'', ''virtio-net-pci,netdev=net0'',
                 ''-display'', ''none'',
                 ''-nographic'']
          in if os (trace w1 @ [Fork]) call = 0
             then (Replaced, w1\<lparr>trace := trace w1 @ [Fork, call]\<rparr>)
             else (Exited 1, w1\<lparr>trace := trace w1 @ [Fork, call, Exit 1]\<rparr>))
       \<and> (length port_str \<le> 498 \<longrightarrow>
            take 511 (''user,id=net0,'' @ port_str) = ''user,id=net0,'' @ port_str)"
  using start_in_child [OF alloc ok child] by simp

text \<open>A start with 1024 MB, 2 cores and one forwarded port, seen from the child, with a
  replacement that succeeds and with one that fails.\<close>

theorem child_invocation_witness:
  "allocate_handle (\<lambda>tr c. if c = Calloc then 1 else 0)
      \<lparr>handles = [None, None, None, None], trace = []\<rparr>
     = (0, \<lparr>handles = [Some zero_handle, None, None, None], trace = [Calloc]\<rparr>)
   \<and> nativeStart (\<lambda>tr c. if c = Calloc then 1 else 0) 0 (Some ''qemu'') (Some ''boot.iso'')
        (Some ''disk.qcow2'') 1024 2 (Some ''hostfwd=tcp::2375-:2375'')
        \<lparr>handles = [None, None, None, None], trace = []\<rparr>
      = (Replaced,
         \<lparr>handles = [Some zero_handle, None, None, None],
          trace = [Calloc, Fork,
            Execlp ''qemu''
              [''qemu'', ''-machine'', ''q35'', ''-cpu'', ''max'', ''-smp'', ''2'', ''-m'', ''1024M'',
               ''-cdrom'', ''boot.iso'', ''-drive'', ''file=%s,format=qcow2,if=virtio'',
               ''-boot'', ''d'', ''-netdev'', ''user,id=net0,hostfwd=tcp::2375-:2375'',
               ''-device'', ''virtio-net-pci,netdev=net0'', ''-display'', ''none'',
               ''-nographic'']]\<rparr>)
   \<and> fst (nativeStart (\<lambda>tr c. if c = Calloc then 1 else if c = Fork then 0 else -1) 0
        (Some ''qemu'') (Some ''boot.iso'') (Some ''disk.qcow2'') 1024 2
        (Some ''hostfwd=tcp::2375-:2375'') \<lparr>handles = [None, None, None, None], trace = []\<rparr>)
      = Exited 1"
  (is "?A \<and> ?B \<and> ?C")
proof -
  let ?w = "\<lparr>handles = [None, None, None, None], trace = []\<rparr>"
  let ?w1 = "\<lparr>handles = [Some zero_handle, None, None, None], trace = [Calloc]\<rparr>"
  have a: "allocate_handle os ?w = (0, ?w1)" if "os [] Calloc \<noteq> 0" for os
    using that
    by (simp add: allocate_handle_def allocate_from.simps [of _ 0] MAX_HANDLES_def sys_def
        emit_def store_handle_def)
  have z: "(0::int) \<le> 0"
    by simp
  have two: "fmt_d 2 = ''2''" and ram: "fmt_d 1024 = ''1024''"
    by (simp_all add: fmt_d_def dec_nat.simps digit_char_def)
  have ?A
    by (rule a) simp
  moreover have ?B
    using child_invocation [OF a z, of "\<lambda>tr c. if c = Calloc then 1 else 0" 0 "''qemu''"
        "''boot.iso''" "''disk.qcow2''" 1024 2 "''hostfwd=tcp::2375-:2375''"]
    by (simp add: two ram)
  moreover have ?C
    using child_invocation [OF a z, of "\<lambda>tr c. if c = Calloc then 1 else if c = Fork then 0 else -1"
        0 "''qemu''" "''boot.iso''" "''disk.qcow2''" 1024 2 "''hostfwd=tcp::2375-:2375''"]
    by (simp add: two ram)
  ultimately show ?thesis
    by blast
qed

text \<open>With a port specification of 499 bytes the network argument loses its last
  byte.\<close>

theorem long_port_spec_cut:
  "nativeStart (\<lambda>tr c. if c = Calloc then 1 else 0) 0 (Some ''qemu'') (Some ''boot.iso'')
        (Some ''disk.qcow2'') 1024 2 (Some (replicate 499 CHR ''x''))
        \<lparr>handles = [None, None, None, None], trace = []\<rparr>
      = (Replaced,
         \<lparr>handles = [Some zero_handle, None, None, None],
          trace = [Calloc, Fork,
            Execlp ''qemu''
              [''qemu'', ''-machine'', ''q35'', ''-cpu'', ''max'', ''-smp'', ''2'', ''-m'', ''1024M'',
               ''-cdrom'', ''boot.iso'', ''-drive'', ''file=%s,format=qcow2,if=virtio'',
               ''-boot'', ''d'', ''-netdev'', ''user,id=net0,'' @ replicate 498 CHR ''x'',
               ''-device'', ''virtio-net-pci,netdev=net0'', ''-display'', ''none'',
               ''-nographic'']]\<rparr>)
   \<and> ''user,id=net0,'' @ replicate 498 CHR ''x'' \<noteq> ''user,id=net0,'' @ replicate 499 CHR ''x''"
proof -
  let ?os = "\<lambda>tr c. if c = Calloc then 1 else (0::int)"
  let ?w = "\<lparr>handles = [None, None, None, None], trace = []\<rparr>"
  let ?w1 = "\<lparr>handles = [Some zero_handle, None, None, None], trace = [Calloc]\<rparr>"
  have a: "allocate_handle ?os ?w = (0, ?w1)"
    by (simp add: allocate_handle_def allocate_from.simps [of _ 0] MAX_HANDLES_def sys_def
        emit_def store_handle_def)
  have z: "(0::int) \<le> 0"
    by simp
  have two: "fmt_d 2 = ''2''" and ram: "fmt_d 1024 = ''1024''"
    by (simp_all add: fmt_d_def dec_nat.simps digit_char_def)
  have "length (replicate 498 CHR ''x'') \<noteq> length (replicate 499 CHR ''x'')"
    by simp
  then have "replicate 498 CHR ''x'' \<noteq> replicate 499 CHR ''x''"
    by metis
  then show ?thesis
    using start_in_child [OF a z, of 0 "''qemu''" "''boot.iso''" "''disk.qcow2''" 1024 2
        "replicate 499 CHR ''x''"]
    by (simp add: two ram)
qed

section \<open>Create Disk Image\<close>

text \<open>The eight passes of the loop, and the header as a whole.\<close>

lemma put_size_unrolled:
  "put_size s 0 h = h[24 := ucast (drop_bit 56 s AND 0xFF), 25 := ucast (drop_bit 48 s AND 0xFF),
     26 := ucast (drop_bit 40 s AND 0xFF), 27 := ucast (drop_bit 32 s AND 0xFF),
     28 := ucast (drop_bit 24 s AND 0xFF), 29 := ucast (drop_bit 16 s AND 0xFF),
     30 := ucast (drop_bit 8 s AND 0xFF), 31 := ucast (drop_bit 0 s AND 0xFF)]"
  by (simp add: put_size.simps [of s 0] put_size.simps [of s "Suc 0"]
      put_size.simps [of s "Suc (Suc 0)"] put_size.simps [of s "Suc (Suc (Suc 0))"]
      put_size.simps [of s "Suc (Suc (Suc (Suc 0)))"]
      put_size.simps [of s "Suc (Suc (Suc (Suc (Suc 0))))"]
      put_size.simps [of s "Suc (Suc (Suc (Suc (Suc (Suc 0)))))"]
      put_size.simps [of s "Suc (Suc (Suc (Suc (Suc (Suc (Suc 0))))))"]
      put_size.simps [of s "Suc (Suc (Suc (Suc (Suc (Suc (Suc (Suc 0)))))))"])

lemma blank_header:
  "replicate 512 (0::byte)
     = [0, 0, 0, 0, 0, 0, 0, 0] @ replicate 12 0 @ [0, 0, 0, 0] @ [0, 0, 0, 0, 0, 0, 0, 0]
       @ replicate 480 0"
proof -
  have "replicate 512 (0::byte) = replicate (8 + (12 + (4 + (8 + 480)))) 0"
    by simp
  also have "\<dots> = replicate 8 0 @ replicate 12 0 @ replicate 4 0 @ replicate 8 0 @ replicate 480 0"
    by (simp only: replicate_add)
  also have "replicate 8 (0::byte) = [0, 0, 0, 0, 0, 0, 0, 0]"
    by (simp add: numeral_eq_Suc)
  also have "replicate 4 (0::byte) = [0, 0, 0, 0]"
    by (simp add: numeral_eq_Suc)
  finally show ?thesis .
qed

lemma disk_header_layout:
  "disk_header size_mb =
     [0x51, 0x46, 0x49, 0xFB, 0, 0, 0, 3] @ replicate 12 0 @ [0, 0, 0, 16]
     @ map (\<lambda>k. ucast (drop_bit k ((scast size_mb :: 64 word) * 1024 * 1024) AND 0xFF))
         [56, 48, 40, 32, 24, 16, 8, 0]
     @ replicate 480 0"
  unfolding disk_header_def Let_def put_size_unrolled blank_header
  by (simp add: list_update_append)

text \<open>The eight bytes of the size field read back as the 64-bit size.\<close>

lemma size_byte:
  "unat (ucast (drop_bit k (s :: 64 word) AND 0xFF) :: byte) = unat s div 2 ^ k mod 256"
proof -
  have "(drop_bit k s AND 0xFF) = take_bit 8 (drop_bit k s)"
    by (simp add: take_bit_eq_mask mask_eq_exp_minus_1)
  then have "unat (ucast (drop_bit k s AND 0xFF) :: byte) = take_bit 8 (drop_bit k (unat s))"
    by (simp add: unsigned_ucast_eq unsigned_take_bit_eq unat_drop_bit_eq)
  also have "\<dots> = unat s div 2 ^ k mod 256"
    by (simp add: take_bit_eq_mod drop_bit_eq_div)
  finally show ?thesis .
qed

lemma next_byte: "(n::nat) div 2 ^ (k + 8) * 256 + n div 2 ^ k mod 256 = n div 2 ^ k"
proof -
  have "n div 2 ^ (k + 8) = n div 2 ^ k div 256"
    by (simp add: power_add div_mult2_eq)
  then show ?thesis by simp
qed

lemma bytes_sum:
  fixes n :: nat
  assumes "n < 2 ^ 64"
  shows "((((((n div 2 ^ 56 mod 256 * 256 + n div 2 ^ 48 mod 256) * 256 + n div 2 ^ 40 mod 256) * 256
          + n div 2 ^ 32 mod 256) * 256 + n div 2 ^ 24 mod 256) * 256 + n div 2 ^ 16 mod 256) * 256
          + n div 2 ^ 8 mod 256) * 256 + n div 2 ^ 0 mod 256 = n"
proof -
  have "n div 2 ^ 56 < 256"
    using assms by (simp add: less_mult_imp_div_less)
  then have e8: "n div 2 ^ 56 mod 256 = n div 2 ^ 56"
    by simp
  have e7: "n div 2 ^ 56 * 256 + n div 2 ^ 48 mod 256 = n div 2 ^ 48"
    using next_byte [of n 48] by simp
  have e6: "n div 2 ^ 48 * 256 + n div 2 ^ 40 mod 256 = n div 2 ^ 40"
    using next_byte [of n 40] by simp
  have e5: "n div 2 ^ 40 * 256 + n div 2 ^ 32 mod 256 = n div 2 ^ 32"
    using next_byte [of n 32] by simp
  have e4: "n div 2 ^ 32 * 256 + n div 2 ^ 24 mod 256 = n div 2 ^ 24"
    using next_byte [of n 24] by simp
  have e3: "n div 2 ^ 24 * 256 + n div 2 ^ 16 mod 256 = n div 2 ^ 16"
    using next_byte [of n 16] by simp
  have e2: "n div 2 ^ 16 * 256 + n div 2 ^ 8 mod 256 = n div 2 ^ 8"
    using next_byte [of n 8] by simp
  have e1: "n div 2 ^ 8 * 256 + n div 2 ^ 0 mod 256 = n div 2 ^ 0"
    using next_byte [of n 0] by simp
  show ?thesis
    by (simp only: e8 e7 e6 e5 e4 e3 e2 e1) simp
qed

lemma size_field_value:
  "be_decode (map (\<lambda>k. ucast (drop_bit k (s :: 64 word) AND 0xFF)) [56, 48, 40, 32, 24, 16, 8, 0])
     = unat s"
proof -
  have "unat s < 2 ^ 64"
    using unsigned_less [of s] by simp
  from bytes_sum [OF this] show ?thesis
    by (simp add: be_decode_def size_byte [of 0, simplified] unat_drop_bit_eq
        drop_bit_eq_div [where ?'a = nat])
qed

lemma size_bytes_value:
  "uint ((scast (x :: jint) :: 64 word) * 1024 * 1024) = (sint x * 1048576) mod 2 ^ 64"
proof -
  have "(scast x :: 64 word) * 1024 * 1024 = word_of_int (sint x * 1048576)"
    by simp
  then show ?thesis
    by (simp only: uint_word_of_int_eq take_bit_eq_mod) simp
qed

lemma size_field_decoded:
  "int (be_decode (take 8 (drop 24 (disk_header size_mb)))) = (sint size_mb * 1048576) mod 2 ^ 64"
proof -
  have "take 8 (drop 24 (disk_header size_mb))
      = map (\<lambda>k. ucast (drop_bit k ((scast size_mb :: 64 word) * 1024 * 1024) AND 0xFF))
          [56, 48, 40, 32, 24, 16, 8, 0]"
    by (simp add: disk_header_layout)
  then have "int (be_decode (take 8 (drop 24 (disk_header size_mb))))
      = uint ((scast size_mb :: 64 word) * 1024 * 1024)"
    by (simp only: size_field_value) simp
  then show ?thesis
    by (simp only: size_bytes_value)
qed

lemma create_disk_writes:
  assumes "os (trace w) (Fopen disk_path ''wb'') \<noteq> 0"
  shows "nativeCreateDisk os (Some disk_path) size_mb w
       = (True, w\<lparr>trace := trace w @ [Fopen disk_path ''wb'', Fwrite (disk_header size_mb),
                                      Fclose]\<rparr>)"
  using assms by (simp add: nativeCreateDisk_def sys_def emit_def)

lemma disk_header_fixed_fields:
  "length (disk_header size_mb) = 512
   \<and> take 8 (disk_header size_mb) = [0x51, 0x46, 0x49, 0xFB, 0, 0, 0, 3]
   \<and> take 12 (drop 8 (disk_header size_mb)) = replicate 12 0
   \<and> take 4 (drop 20 (disk_header size_mb)) = [0, 0, 0, 16]
   \<and> drop 32 (disk_header size_mb) = replicate 480 0"
  by (simp add: disk_header_layout)

lemma product_range:
  "- (2 ^ 51) \<le> sint (x :: jint) * 1048576 \<and> sint x * 1048576 < 2 ^ 51"
  using sint_ge [of x] sint_lt [of x] by simp

text \<open>
  Claim C2. Create Disk Image writes a file of exactly 512 bytes: bytes 0-3 are
  51 46 49 FB, bytes 4-7 are 0 0 0 3, bytes 20-23 are 0 0 0 16, bytes 24-31 are the
  big-endian encoding of the size in bytes, and every other byte is zero. As stated, for
  every requested size, the claim fails: for a negative size the eight bytes do not
  encode the product of the size and 1,048,576. What holds, whenever the path is
  obtained and the file opens: the layout is as claimed, and bytes 24-31 encode the
  product modulo \<open>2 ^ 64\<close>, which is the product itself for every size that is not
  negative.
\<close>

theorem disk_header_exact:
  assumes opened: "os (trace w) (Fopen disk_path ''wb'') \<noteq> 0"
  shows "nativeCreateDisk os (Some disk_path) size_mb w
       = (True, w\<lparr>trace := trace w @ [Fopen disk_path ''wb'', Fwrite (disk_header size_mb),
                                      Fclose]\<rparr>)
   \<and> length (disk_header size_mb) = 512
   \<and> take 8 (disk_header size_mb) = [0x51, 0x46, 0x49, 0xFB, 0, 0, 0, 3]
   \<and> take 12 (drop 8 (disk_header size_mb)) = replicate 12 0
   \<and> take 4 (drop 20 (disk_header size_mb)) = [0, 0, 0, 16]
   \<and> int (be_decode (take 8 (drop 24 (disk_header size_mb))))
        = (sint size_mb * 1048576) mod 2 ^ 64
   \<and> (0 \<le> sint size_mb \<longrightarrow>
        int (be_decode (take 8 (drop 24 (disk_header size_mb)))) = sint size_mb * 1048576)
   \<and> drop 32 (disk_header size_mb) = replicate 480 0"
proof -
  have "(sint size_mb * 1048576) mod 2 ^ 64 = sint size_mb * 1048576" if "0 \<le> sint size_mb"
    using that product_range [of size_mb] by (intro mod_pos_pos_trivial) simp_all
  then show ?thesis
    using create_disk_writes [of os w disk_path size_mb, OF opened] disk_header_fixed_fields [of size_mb]
    by (simp only: size_field_decoded) simp
qed

text \<open>The size of one mebibyte: bytes 24-31 are 00 00 00 00 00 10 00 00.\<close>

theorem disk_header_exact_witness:
  "nativeCreateDisk (\<lambda>tr c. 1) (Some ''disk.qcow2'') 1
      \<lparr>handles = [None, None, None, None], trace = []\<rparr>
     = (True, \<lparr>handles = [None, None, None, None],
               trace = [Fopen ''disk.qcow2'' ''wb'', Fwrite (disk_header 1), Fclose]\<rparr>)
   \<and> length (disk_header 1) = 512
   \<and> take 8 (drop 24 (disk_header 1)) = [0, 0, 0, 0, 0, 0x10, 0, 0]
   \<and> int (be_decode (take 8 (drop 24 (disk_header 1)))) = 1048576"
  using disk_header_exact [of "\<lambda>tr c. 1" "\<lparr>handles = [None, None, None, None], trace = []\<rparr>"
      "''disk.qcow2''" 1]
  by (simp add: disk_header_layout drop_bit_eq_div)

text \<open>The size -1: the file is written, and bytes 24-31 read as
  18446744073708503040, not as -1048576.\<close>

theorem negative_size_not_product:
  "nativeCreateDisk (\<lambda>tr c. 1) (Some ''disk.qcow2'') (-1)
      \<lparr>handles = [None, None, None, None], trace = []\<rparr>
     = (True, \<lparr>handles = [None, None, None, None],
               trace = [Fopen ''disk.qcow2'' ''wb'', Fwrite (disk_header (-1)), Fclose]\<rparr>)
   \<and> int (be_decode (take 8 (drop 24 (disk_header (-1))))) = 18446744073708503040
   \<and> sint (-1 :: jint) * 1048576 = -1048576
   \<and> int (be_decode (take 8 (drop 24 (disk_header (-1))))) \<noteq> sint (-1 :: jint) * 1048576"
  using create_disk_writes [of "\<lambda>tr c. 1" "\<lparr>handles = [None, None, None, None], trace = []\<rparr>"
      "''disk.qcow2''" "-1"] size_field_decoded [of "-1"]
  by simp

text \<open>
  Claim C10. For every negative requested size, Create Disk Image still succeeds (the
  path obtained, the file opened), and bytes 24-31 encode the size, sign-extended to 64
  bits, times 1,048,576 modulo \<open>2 ^ 64\<close>: that is \<open>2 ^ 64\<close> more than the product, and so
  not the product.
\<close>

theorem negative_size_wraps:
  assumes neg: "sint size_mb < 0" and opened: "os (trace w) (Fopen disk_path ''wb'') \<noteq> 0"
  shows "nativeCreateDisk os (Some disk_path) size_mb w
       = (True, w\<lparr>trace := trace w @ [Fopen disk_path ''wb'', Fwrite (disk_header size_mb),
                                      Fclose]\<rparr>)
   \<and> int (be_decode (take 8 (drop 24 (disk_header size_mb))))
        = (sint size_mb * 1048576) mod 2 ^ 64
   \<and> (sint size_mb * 1048576) mod 2 ^ 64 = 2 ^ 64 + sint size_mb * 1048576
   \<and> (sint size_mb * 1048576) mod 2 ^ 64 \<noteq> sint size_mb * 1048576"
proof -
  let ?v = "sint size_mb * 1048576"
  have "(?v + 2 ^ 64) mod 2 ^ 64 = ?v + 2 ^ 64"
    using product_range [of size_mb] neg by (intro mod_pos_pos_trivial) simp_all
  then have wrap: "?v mod 2 ^ 64 = 2 ^ 64 + ?v"
    by simp
  then have "?v mod 2 ^ 64 \<noteq> ?v"
    by simp
  with wrap show ?thesis
    using create_disk_writes [of os w disk_path size_mb, OF opened] size_field_decoded [of size_mb]
    by blast
qed

text \<open>The size -1: bytes 24-31 are FF FF FF FF FF F0 00 00.\<close>

theorem negative_size_wraps_witness:
  "sint (-1 :: jint) < 0
   \<and> nativeCreateDisk (\<lambda>tr c. 1) (Some ''disk.qcow2'') (-1)
        \<lparr>handles = [None, None, None, None], trace = []\<rparr>
      = (True, \<lparr>handles = [None, None, None, None],
                trace = [Fopen ''disk.qcow2'' ''wb'', Fwrite (disk_header (-1)), Fclose]\<rparr>)
   \<and> take 8 (drop 24 (disk_header (-1))) = [0xFF, 0xFF, 0xFF, 0xFF, 0xFF, 0xF0, 0, 0]
   \<and> int (be_decode (take 8 (drop 24 (disk_header (-1))))) = 2 ^ 64 - 1048576"
proof -
  have n: "sint (-1 :: jint) < 0"
    by simp
  have o: "(\<lambda>tr c. 1::int) (trace \<lparr>handles = [None, None, None, None], trace = []\<rparr>)
             (Fopen ''disk.qcow2'' ''wb'') \<noteq> 0"
    by simp
  have bytes: "take 8 (drop 24 (disk_header (-1))) = [0xFF, 0xFF, 0xFF, 0xFF, 0xFF, 0xF0, 0, 0]"
    by (simp add: disk_header_layout drop_bit_eq_div)
  show ?thesis
    using negative_size_wraps [OF n o] bytes
    by simp
qed

end
